theory Spec2Isabelle
  imports Main
begin

section \<open>Data model of \<^verbatim>\<open>pkg/plugin/twinmaker/utils.go\<close>\<close>

text \<open>
  The Go code works on shapes of the AWS SDK (\<^verbatim>\<open>iottwinmaker\<close>), on the plugin's query
  type (\<^verbatim>\<open>models.TwinMakerQuery\<close>) and on the notices of the Grafana SDK. Only the members the
  code reads or writes are modelled. A Go pointer (\<^verbatim>\<open>*string\<close>, \<^verbatim>\<open>*bool\<close>, a pointer to a
  struct held in a field or returned by the client) is an \<open>option\<close>: \<open>None\<close> is \<^verbatim>\<open>nil\<close>, and
  dereferencing it is a panic of the Go runtime. Pointers to structs that are elements of a
  slice or of a map, and the pointer a function takes as its argument, are modelled as the
  struct itself. A Go error is modelled by its message
  (what \<^verbatim>\<open>err.Error()\<close> returns), so \<^verbatim>\<open>error\<close> is \<open>string option\<close>.

  A Go map is modelled by the list of its entries in the order in which a \<^verbatim>\<open>range\<close>
  statement visits them. The Go runtime does not fix that order, and it may differ from one
  \<^verbatim>\<open>range\<close> to the next; every map of this file is ranged over at most once per call, so
  one list per map describes one call.
\<close>

datatype panic = NilPointerDereference | MustPanic string

definition deref :: "'a option \<Rightarrow> panic + 'a" where
  "deref p = (case p of None \<Rightarrow> Inl NilPointerDereference | Some v \<Rightarrow> Inr v)"

type_synonym 'v gomap = "(string \<times> 'v) list"

record DataValue =
  dv_StringValue :: "string option"
  dv_BooleanValue :: "bool option"
  dv_IntegerValue :: "int option"

record PropertyDefinitionResponse =
  pd_IsExternalId :: "bool option"

record PropertyResponse =
  pr_Definition :: "PropertyDefinitionResponse option"
  pr_Value :: "DataValue option"

record ComponentResponse =
  cr_ComponentName :: "string option"
  cr_ComponentTypeId :: "string option"
  cr_Properties :: "PropertyResponse gomap"

record GetEntityOutput =
  ge_Components :: "ComponentResponse gomap"

record EntitySummary =
  es_EntityId :: "string option"
  es_EntityName :: "string option"

record ListEntitiesOutput =
  le_EntitySummaries :: "EntitySummary list"

record EntityPropertyReference =
  epr_EntityId :: "string option"
  epr_ComponentName :: "string option"
  epr_ExternalIdProperty :: "string option gomap"
  epr_PropertyName :: "string option"

record PropertyValue =
  pv_Time :: "string option"
  pv_Value :: "DataValue option"

record PropertyValueHistory =
  pvh_EntityPropertyReference :: "EntityPropertyReference option"
  pvh_Values :: "PropertyValue list"

record GetPropertyValueHistoryOutput =
  ho_PropertyValues :: "PropertyValueHistory list"

record TwinMakerListEntitiesFilter =
  lf_ExternalId :: string

text \<open>
  The query: the four members the resolver overwrites. Every other member of
  \<^verbatim>\<open>models.TwinMakerQuery\<close> lives in the extension slot of the record, which the updates
  below leave as it is.
\<close>

record TwinMakerQuery =
  q_EntityId :: string
  q_Properties :: "string option list"
  q_ComponentTypeId :: string
  q_ListEntitiesFilter :: "TwinMakerListEntitiesFilter list"

datatype NoticeSeverity = NoticeSeverityInfo | NoticeSeverityWarning | NoticeSeverityError

record Notice =
  Severity :: NoticeSeverity
  Text :: string

text \<open>
  \<^verbatim>\<open>PropertyReference\<close> of the source. Its reference is a pointer to a struct the resolver
  allocates itself, so it is never \<^verbatim>\<open>nil\<close>.
\<close>

record PropertyReference =
  values_of :: "PropertyValue list"
  entityPropertyReference :: EntityPropertyReference
  entityName :: "string option"

section \<open>Identifier composer\<close>

text \<open>
  Lines 137-142 and 178-183: \<^verbatim>\<open>externalId := ""; for _, val := range m { externalId = *val; break }\<close>.
\<close>

fun extractExternalId :: "string option gomap \<Rightarrow> panic + string" where
  "extractExternalId [] = Inr ''''"
| "extractExternalId ((k, val) # rest) = deref val"

text \<open>
  The visiting order belongs to a \<^verbatim>\<open>range\<close> statement, not to the map: two calls on one
  map value may visit its entries in different orders. Two lists are visiting orders of one
  and the same map value when each lists every key once and both list the same entries.
\<close>

definition sameGoMap :: "'v gomap \<Rightarrow> 'v gomap \<Rightarrow> bool" where
  "sameGoMap xs ys = (distinct (map fst xs) \<and> distinct (map fst ys) \<and> set xs = set ys)"

definition GetEntityPropertyReferenceKey :: "'a EntityPropertyReference_scheme \<Rightarrow> panic + string" where
  "GetEntityPropertyReferenceKey r =
     (case extractExternalId (epr_ExternalIdProperty r) of
        Inl p \<Rightarrow> Inl p
      | Inr externalId \<Rightarrow>
          (let refKey0 = '''';
               refKey1 = (case epr_EntityId r of None \<Rightarrow> refKey0 | Some e \<Rightarrow> refKey0 @ e @ ''_'');
               refKey2 = (case epr_ComponentName r of None \<Rightarrow> refKey1 | Some c \<Rightarrow> refKey1 @ c @ ''_'');
               refKey3 = refKey2 @ externalId @ ''_'';
               refKey4 = (case epr_PropertyName r of None \<Rightarrow> refKey3 | Some n \<Rightarrow> refKey3 @ n)
           in Inr refKey4))"

section \<open>Reference resolver\<close>

text \<open>
  The remote client (\<^verbatim>\<open>s.client\<close>) is an interface whose implementation is outside the
  file. Each of its three operations returns a pointer to an SDK output and an error. What an
  operation answers may depend on the calls made before it, so every operation also gets the
  list of earlier calls; the resolver extends that list, which makes the calls it performs
  observable.
\<close>

datatype 'm call =
    GetPropertyValueHistoryCall "'m TwinMakerQuery_scheme"
  | ListEntitiesCall "'m TwinMakerQuery_scheme"
  | GetEntityCall "'m TwinMakerQuery_scheme"

record 'm TwinMakerClient =
  GetPropertyValueHistory ::
    "'m call list \<Rightarrow> 'm TwinMakerQuery_scheme \<Rightarrow> GetPropertyValueHistoryOutput option \<times> string option"
  ListEntities ::
    "'m call list \<Rightarrow> 'm TwinMakerQuery_scheme \<Rightarrow> ListEntitiesOutput option \<times> string option"
  GetEntity ::
    "'m call list \<Rightarrow> 'm TwinMakerQuery_scheme \<Rightarrow> GetEntityOutput option \<times> string option"

text \<open>
  Lines 197-203 and 211-217: a non-nil error appends one warning notice carrying its message.
\<close>

definition noteFailure :: "string option \<Rightarrow> Notice list \<Rightarrow> Notice list" where
  "noteFailure err failures =
     (case err of
        None \<Rightarrow> failures
      | Some msg \<Rightarrow> failures @ [\<lparr>Severity = NoticeSeverityWarning, Text = msg\<rparr>])"

text \<open>
  Lines 222-229, the loop over the properties of the component whose type matched. The result
  is whether \<^verbatim>\<open>componentName\<close> was assigned (the loop then breaks).
\<close>

fun scanProperties :: "string \<Rightarrow> PropertyResponse gomap \<Rightarrow> panic + bool" where
  "scanProperties externalId [] = Inr False"
| "scanProperties externalId ((k, property) # rest) =
     (case pr_Definition property of
        None \<Rightarrow> Inl NilPointerDereference
      | Some definition \<Rightarrow>
          (case pd_IsExternalId definition of
             None \<Rightarrow> Inl NilPointerDereference
           | Some isExternalId \<Rightarrow>
               if isExternalId then
                 (case pr_Value property of
                    None \<Rightarrow> Inl NilPointerDereference
                  | Some v \<Rightarrow>
                      (case dv_StringValue v of
                         None \<Rightarrow> Inl NilPointerDereference
                       | Some s \<Rightarrow>
                           if s = externalId then Inr True
                           else scanProperties externalId rest))
               else scanProperties externalId rest))"

text \<open>
  Lines 218-232, the loop over the components of the entity. It stops at the first component
  whose type is the wanted one, whether or not that component carries the external
  identifier.
\<close>

fun scanComponents :: "string \<Rightarrow> string \<Rightarrow> ComponentResponse gomap \<Rightarrow> panic + string" where
  "scanComponents componentTypeId externalId [] = Inr ''''"
| "scanComponents componentTypeId externalId ((k, component) # rest) =
     (case cr_ComponentTypeId component of
        None \<Rightarrow> Inl NilPointerDereference
      | Some typeId \<Rightarrow>
          if typeId = componentTypeId then
            (case scanProperties externalId (cr_Properties component) of
               Inl p \<Rightarrow> Inl p
             | Inr found \<Rightarrow>
                 if found then deref (cr_ComponentName component) else Inr '''')
          else scanComponents componentTypeId externalId rest)"

text \<open>The variables that live across the iterations of the loop of lines 177-246.\<close>

record 'm lookup_state =
  ls_query :: "'m TwinMakerQuery_scheme"
  ls_propertyReferences :: "PropertyReference list"
  ls_failures :: "Notice list"
  ls_calls :: "'m call list"

text \<open>Lines 186-194: the query as it is sent to \<^verbatim>\<open>ListEntities\<close>.\<close>

definition listEntitiesQuery :: "'m TwinMakerQuery_scheme \<Rightarrow> string \<Rightarrow> 'm TwinMakerQuery_scheme" where
  "listEntitiesQuery query externalId =
     query\<lparr>q_EntityId := '''', q_Properties := [], q_ComponentTypeId := '''',
           q_ListEntitiesFilter := [\<lparr>lf_ExternalId = externalId\<rparr>]\<rparr>"

text \<open>
  One iteration of the loop (lines 178-245). After a failed \<^verbatim>\<open>ListEntities\<close> the source
  records the notice and goes on to read \<^verbatim>\<open>le.EntitySummaries\<close>; after a failed
  \<^verbatim>\<open>GetEntity\<close> it records the notice and goes on to read \<^verbatim>\<open>e.Components\<close>.
\<close>

definition lookupBody ::
  "'m TwinMakerClient \<Rightarrow> string \<Rightarrow> 'm lookup_state \<Rightarrow> PropertyValueHistory \<Rightarrow> panic + 'm lookup_state"
where
  "lookupBody client componentTypeId st propertyValue =
     (case pvh_EntityPropertyReference propertyValue of
        None \<Rightarrow> Inl NilPointerDereference
      | Some reference \<Rightarrow>
     (case extractExternalId (epr_ExternalIdProperty reference) of
        Inl p \<Rightarrow> Inl p
      | Inr externalId \<Rightarrow>
     (let query = listEntitiesQuery (ls_query st) externalId;
          (le, err) = ListEntities client (ls_calls st) query;
          calls = ls_calls st @ [ListEntitiesCall query];
          failures = noteFailure err (ls_failures st)
      in
     (case le of
        None \<Rightarrow> Inl NilPointerDereference
      | Some leOut \<Rightarrow>
     (case le_EntitySummaries leOut of
        [] \<Rightarrow> Inr (st\<lparr>ls_query := query, ls_failures := failures, ls_calls := calls\<rparr>)
      | summary # others \<Rightarrow>
     (let entityId = es_EntityId summary;
          entityName = es_EntityName summary
      in
     (case entityId of
        None \<Rightarrow> Inl NilPointerDereference
      | Some eid \<Rightarrow>
     (let query2 = query\<lparr>q_EntityId := eid\<rparr>;
          (e, err2) = GetEntity client calls query2;
          calls2 = calls @ [GetEntityCall query2];
          failures2 = noteFailure err2 failures
      in
     (case e of
        None \<Rightarrow> Inl NilPointerDereference
      | Some eOut \<Rightarrow>
     (case scanComponents componentTypeId externalId (ge_Components eOut) of
        Inl p \<Rightarrow> Inl p
      | Inr componentName \<Rightarrow>
          Inr \<lparr>ls_query = query2,
               ls_propertyReferences = ls_propertyReferences st @
                 [\<lparr>values_of = pvh_Values propertyValue,
                   entityPropertyReference =
                     \<lparr>epr_EntityId = entityId,
                      epr_ComponentName = Some componentName,
                      epr_ExternalIdProperty = epr_ExternalIdProperty reference,
                      epr_PropertyName = epr_PropertyName reference\<rparr>,
                   entityName = entityName\<rparr>],
               ls_failures = failures2,
               ls_calls = calls2\<rparr>))))))))))"

fun lookupLoop ::
  "'m TwinMakerClient \<Rightarrow> string \<Rightarrow> PropertyValueHistory list \<Rightarrow> 'm lookup_state \<Rightarrow> panic + 'm lookup_state"
where
  "lookupLoop client componentTypeId [] st = Inr st"
| "lookupLoop client componentTypeId (propertyValue # rest) st =
     (case lookupBody client componentTypeId st propertyValue of
        Inl p \<Rightarrow> Inl p
      | Inr st' \<Rightarrow> lookupLoop client componentTypeId rest st')"

text \<open>
  What a call of the resolver yields when it returns: the three results of the Go function
  and the calls it made on the client, in order.
\<close>

record 'm lookup_result =
  res_p :: "PropertyReference list"
  res_n :: "Notice list"
  res_err :: "string option"
  res_calls :: "'m call list"

definition GetComponentHistoryWithLookup ::
  "'m TwinMakerClient \<Rightarrow> 'm TwinMakerQuery_scheme \<Rightarrow> panic + 'm lookup_result"
where
  "GetComponentHistoryWithLookup client query =
     (let propertyReferences = [];
          failures = [];
          componentTypeId = q_ComponentTypeId query;
          (result, err) = GetPropertyValueHistory client [] query;
          calls = [GetPropertyValueHistoryCall query]
      in
     (case err of
        Some e \<Rightarrow>
          Inr \<lparr>res_p = propertyReferences, res_n = failures, res_err = Some e, res_calls = calls\<rparr>
      | None \<Rightarrow>
     (case result of
        None \<Rightarrow> Inl NilPointerDereference
      | Some out \<Rightarrow>
          if length (ho_PropertyValues out) > 0 then
            (case lookupLoop client componentTypeId (ho_PropertyValues out)
                    \<lparr>ls_query = query, ls_propertyReferences = propertyReferences,
                     ls_failures = failures, ls_calls = calls\<rparr> of
               Inl p \<Rightarrow> Inl p
             | Inr st \<Rightarrow>
                 Inr \<lparr>res_p = ls_propertyReferences st, res_n = ls_failures st,
                      res_err = None, res_calls = ls_calls st\<rparr>)
          else
            Inr \<lparr>res_p = propertyReferences, res_n = failures, res_err = None,
                 res_calls = calls\<rparr>)))"

section \<open>The component scan in the words of the specification\<close>

text \<open>
  The specification describes the scan of lines 218-232 as: take the first component whose
  component-type id equals the target type; within it look for a property flagged as the
  external-id property whose string value equals the external identifier; the name of that
  component is the resolution, and the empty string is the resolution when no component has
  the type or no flagged property has the value. \<open>specComponentName\<close> writes that down;
  it is compared with \<open>scanComponents\<close> below.
\<close>

definition propertyMatches :: "string \<Rightarrow> PropertyResponse \<Rightarrow> bool" where
  "propertyMatches externalId property =
     (case pr_Definition property of
        None \<Rightarrow> False
      | Some d \<Rightarrow>
          pd_IsExternalId d = Some True \<and>
          (case pr_Value property of None \<Rightarrow> False | Some v \<Rightarrow> dv_StringValue v = Some externalId))"

definition specComponentName :: "string \<Rightarrow> string \<Rightarrow> ComponentResponse gomap \<Rightarrow> string option" where
  "specComponentName componentTypeId externalId components =
     (case find (\<lambda>(k, c). cr_ComponentTypeId c = Some componentTypeId) components of
        None \<Rightarrow> Some ''''
      | Some (k, c) \<Rightarrow>
          if list_ex (\<lambda>(pk, p). propertyMatches externalId p) (cr_Properties c)
          then cr_ComponentName c
          else Some '''')"

text \<open>
  An entity detail is populated when the service has set every member the scan
  dereferences: each component has a type id and a name, each property has a definition with
  its external-id flag, and each flagged property has a string value.
\<close>

definition propertyPopulated :: "PropertyResponse \<Rightarrow> bool" where
  "propertyPopulated property =
     (case pr_Definition property of
        None \<Rightarrow> False
      | Some d \<Rightarrow>
          (case pd_IsExternalId d of
             None \<Rightarrow> False
           | Some flag \<Rightarrow>
               (if flag
                then (case pr_Value property of None \<Rightarrow> False | Some v \<Rightarrow> dv_StringValue v \<noteq> None)
                else True)))"

definition componentsPopulated :: "ComponentResponse gomap \<Rightarrow> bool" where
  "componentsPopulated components =
     list_all (\<lambda>(k, c). cr_ComponentTypeId c \<noteq> None \<and> cr_ComponentName c \<noteq> None \<and>
                 list_all (\<lambda>(pk, p). propertyPopulated p) (cr_Properties c)) components"

section \<open>Access-policy document\<close>

text \<open>
  \<^verbatim>\<open>LoadPolicy\<close> (lines 27-112) calls three functions of the Go standard library:
  \<^verbatim>\<open>json.Compact\<close>, \<^verbatim>\<open>template.Parse\<close> and \<^verbatim>\<open>Template.Execute\<close>. They are parameters
  of the model. \<^verbatim>\<open>json.Compact\<close> yields an error or the compacted text, \<^verbatim>\<open>Parse\<close> yields an
  error or a template, and \<^verbatim>\<open>Execute\<close> yields what it wrote to the builder and an error
  or \<^verbatim>\<open>nil\<close>. \<^verbatim>\<open>template.Must\<close> panics with the error of a failed \<^verbatim>\<open>Parse\<close>.
\<close>

record 't TemplateLibrary =
  jsonCompact :: "string \<Rightarrow> string + string"
  templateParse :: "string \<Rightarrow> string + 't"
  templateExecute :: "'t \<Rightarrow> string option gomap \<Rightarrow> string \<times> string option"

record GetWorkspaceOutput =
  ws_S3Location :: "string option"
  ws_Arn :: "string option"
  ws_WorkspaceId :: "string option"

definition indent :: "nat \<Rightarrow> string \<Rightarrow> string" where
  "indent n s = replicate n (CHR 0x09) @ s"

fun joinLines :: "string list \<Rightarrow> string" where
  "joinLines [] = []"
| "joinLines [l] = l"
| "joinLines (l # ls) = l @ CHR 0x0A # joinLines ls"

definition policyTemplate :: string where
  \<open>policyTemplate = joinLines
     [indent 0 ''{'',
      indent 2 ''"Version": "2012-10-17",'',
      indent 2 ''"Statement": ['',
      indent 3 ''{'',
      indent 4 ''"Action": ['',
      indent 5 ''"iottwinmaker:ListWorkspaces"'',
      indent 4 ''],'',
      indent 4 ''"Resource": ['',
      indent 5 ''"*"'',
      indent 4 ''],'',
      indent 4 ''"Effect": "Allow"'',
      indent 3 ''},'',
      indent 3 ''{'',
      indent 4 ''"Action": ['',
      indent 5 ''"iottwinmaker:Get*",'',
      indent 5 ''"iottwinmaker:List*"'',
      indent 4 ''],'',
      indent 4 ''"Resource": ['',
      indent 5 ''"{{.WorkspaceArn}}",'',
      indent 5 ''"{{.WorkspaceArn}}/*"'',
      indent 4 ''],'',
      indent 4 ''"Effect": "Allow"'',
      indent 3 ''},'',
      indent 3 ''{'',
      indent 4 ''"Effect": "Allow",'',
      indent 4 ''"Action": ['',
      indent 4 ''  "kinesisvideo:GetDataEndpoint",'',
      indent 4 ''  "kinesisvideo:GetHLSStreamingSessionURL"'',
      indent 4 ''],'',
      indent 4 ''"Resource": "*"'',
      indent 3 ''},'',
      indent 3 ''{'',
      indent 4 ''"Effect": "Allow",'',
      indent 4 ''"Action": ['',
      indent 4 ''  "iotsitewise:GetAssetPropertyValue",'',
      indent 4 ''  "iotsitewise:GetInterpolatedAssetPropertyValues"'',
      indent 4 ''],'',
      indent 4 ''"Resource": "*"'',
      indent 3 ''},'',
      indent 3 ''{'',
      indent 4 '' "Effect": "Allow",'',
      indent 4 '' "Action": ['',
      indent 4 ''  "iotsitewise:BatchPutAssetPropertyValue"'',
      indent 4 ''],'',
      indent 4 ''"Resource": "*",'',
      indent 4 ''"Condition": {'',
      indent 4 ''  "StringLike": {'',
      indent 5 ''"aws:ResourceTag/EdgeConnectorForKVS": "*{{.WorkspaceId}}*"'',
      indent 4 ''  } '',
      indent 4 ''}'',
      indent 3 ''},'',
      indent 3 ''{'',
      indent 4 ''"Effect": "Allow",'',
      indent 4 ''"Action": ["s3:GetObject"],'',
      indent 4 ''"Resource": ['',
      indent 5 ''"{{.S3BucketArn}}", '',
      indent 5 ''"{{.S3BucketArn}}/*"'',
      indent 4 '']'',
      indent 3 ''}'',
      indent 2 '']'',
      indent 1 ''}'']\<close>

definition policyData :: "GetWorkspaceOutput \<Rightarrow> string option gomap" where
  "policyData workspace =
     [(''S3BucketArn'', ws_S3Location workspace),
      (''WorkspaceArn'', ws_Arn workspace),
      (''WorkspaceId'', ws_WorkspaceId workspace)]"

definition LoadPolicy ::
  "'t TemplateLibrary \<Rightarrow> GetWorkspaceOutput \<Rightarrow> panic + (string \<times> string option)"
where
  "LoadPolicy lib workspace =
     (let data = policyData workspace in
      case jsonCompact lib policyTemplate of
        Inl err \<Rightarrow> Inr ('''', Some err)
      | Inr compacted \<Rightarrow>
          (case templateParse lib compacted of
             Inl err \<Rightarrow> Inl (MustPanic err)
           | Inr t \<Rightarrow>
               (let (written, err) = templateExecute lib t data in
                case err of
                  Some e \<Rightarrow> Inr ('''', Some e)
                | None \<Rightarrow> Inr (written, None))))"

section \<open>Concrete catalogs and runs\<close>

text \<open>
  A small catalog used to run the resolver: each row is an external identifier, the entity
  that carries it and the name of the component of that entity whose external-id property
  holds it.
\<close>

definition batch :: "string \<Rightarrow> string \<Rightarrow> PropertyValueHistory" where
  "batch externalId propertyName =
     \<lparr>pvh_EntityPropertyReference =
        Some \<lparr>epr_EntityId = None, epr_ComponentName = None,
              epr_ExternalIdProperty = [(''sensorKey'', Some externalId)],
              epr_PropertyName = Some propertyName\<rparr>,
      pvh_Values = [\<lparr>pv_Time = Some ''2022-01-01T00:00:00Z'', pv_Value = None\<rparr>]\<rparr>"

definition sensor :: "string \<Rightarrow> string \<Rightarrow> string \<Rightarrow> string \<times> ComponentResponse" where
  "sensor name typeId externalId =
     (name,
      \<lparr>cr_ComponentName = Some name, cr_ComponentTypeId = Some typeId,
       cr_Properties =
         [(''sensorKey'',
           \<lparr>pr_Definition = Some \<lparr>pd_IsExternalId = Some True\<rparr>,
            pr_Value = Some \<lparr>dv_StringValue = Some externalId, dv_BooleanValue = None,
                             dv_IntegerValue = None\<rparr>\<rparr>)]\<rparr>)"

definition exampleQuery :: TwinMakerQuery where
  "exampleQuery =
     \<lparr>q_EntityId = ''plant'', q_Properties = [Some ''temperature''],
      q_ComponentTypeId = ''com.example.sensor'', q_ListEntitiesFilter = []\<rparr>"

definition catalog :: "(string \<times> string \<times> string) list" where
  "catalog = [(''ext-1'', ''e1'', ''s1''), (''ext-2'', ''e2'', ''s2''), (''ext-3'', ''e3'', ''s3'')]"

definition catalogSearch :: "TwinMakerQuery \<Rightarrow> ListEntitiesOutput option \<times> string option" where
  "catalogSearch q =
     (Some \<lparr>le_EntitySummaries =
        map (\<lambda>(x, e, c). \<lparr>es_EntityId = Some e, es_EntityName = Some (''Entity '' @ e)\<rparr>)
          (filter (\<lambda>(x, e, c). q_ListEntitiesFilter q = [\<lparr>lf_ExternalId = x\<rparr>]) catalog)\<rparr>,
      None)"

definition catalogDetail :: "string \<Rightarrow> TwinMakerQuery \<Rightarrow> GetEntityOutput option \<times> string option" where
  "catalogDetail typeId q =
     (case find (\<lambda>(x, e, c). e = q_EntityId q) catalog of
        None \<Rightarrow> (None, Some ''entity not found'')
      | Some (x, e, c) \<Rightarrow> (Some \<lparr>ge_Components = [sensor c typeId x]\<rparr>, None))"

text \<open>
  The history returns the given batches; search and detail answer from the catalog, whose
  components have type \<open>typeId\<close>.
\<close>

definition catalogClient :: "PropertyValueHistory list \<Rightarrow> string \<Rightarrow> unit TwinMakerClient" where
  "catalogClient batches typeId =
     \<lparr>GetPropertyValueHistory = (\<lambda>calls q. (Some \<lparr>ho_PropertyValues = batches\<rparr>, None)),
      ListEntities = (\<lambda>calls q. catalogSearch q),
      GetEntity = (\<lambda>calls q. catalogDetail typeId q)\<rparr>"

text \<open>
  The same client, except that the search for \<open>ext-2\<close> fails with an error and returns
  \<open>failedOutput\<close> as its output pointer.
\<close>

definition searchFailsClient :: "ListEntitiesOutput option \<Rightarrow> unit TwinMakerClient" where
  "searchFailsClient failedOutput =
     (catalogClient
        [batch ''ext-1'' ''temperature'', batch ''ext-2'' ''pressure'', batch ''ext-3'' ''flow'']
        ''com.example.sensor'')
     \<lparr>ListEntities := (\<lambda>calls q.
        if q_ListEntitiesFilter q = [\<lparr>lf_ExternalId = ''ext-2''\<rparr>]
        then (failedOutput, Some ''search failed'')
        else catalogSearch q)\<rparr>"

text \<open>
  A component of the type \<open>exampleQuery\<close> asks for, whose external-id property has the value
  pointer \<open>v\<close>; and the catalog client with one batch for \<open>ext-1\<close>, whose entity detail
  succeeds with that component.
\<close>

definition flaggedComponent :: "DataValue option \<Rightarrow> ComponentResponse" where
  "flaggedComponent v =
     \<lparr>cr_ComponentName = Some ''s1'', cr_ComponentTypeId = Some ''com.example.sensor'',
      cr_Properties =
        [(''sensorKey'', \<lparr>pr_Definition = Some \<lparr>pd_IsExternalId = Some True\<rparr>, pr_Value = v\<rparr>)]\<rparr>"

definition flaggedValueClient :: "DataValue option \<Rightarrow> unit TwinMakerClient" where
  "flaggedValueClient v =
     (catalogClient [batch ''ext-1'' ''temperature''] ''com.example.sensor'')
     \<lparr>GetEntity := (\<lambda>calls q. (Some \<lparr>ge_Components = [(''s1'', flaggedComponent v)]\<rparr>, None))\<rparr>"

text \<open>The end-to-end scenario of the specification.\<close>

definition scenarioClient :: "unit TwinMakerClient" where
  "scenarioClient =
     \<lparr>GetPropertyValueHistory = (\<lambda>calls q.
        (Some \<lparr>ho_PropertyValues = [batch ''ext-42'' ''temperature'']\<rparr>, None)),
      ListEntities = (\<lambda>calls q.
        if q_ListEntitiesFilter q = [\<lparr>lf_ExternalId = ''ext-42''\<rparr>]
        then (Some \<lparr>le_EntitySummaries =
                [\<lparr>es_EntityId = Some ''e1'', es_EntityName = Some ''Boiler''\<rparr>]\<rparr>, None)
        else (Some \<lparr>le_EntitySummaries = []\<rparr>, None)),
      GetEntity = (\<lambda>calls q.
        if q_EntityId q = ''e1''
        then (Some \<lparr>ge_Components = [sensor ''tempSensor'' ''com.example.sensor'' ''ext-42'']\<rparr>, None)
        else (None, Some ''entity not found''))\<rparr>"

text \<open>The state of the loop when its first iteration starts on \<open>exampleQuery\<close>.\<close>

definition startState :: "unit lookup_state" where
  "startState =
     \<lparr>ls_query = exampleQuery, ls_propertyReferences = [], ls_failures = [],
      ls_calls = [GetPropertyValueHistoryCall exampleQuery]\<rparr>"



section \<open>Properties of the identifier composer\<close>

lemma sameGoMap_empty:
  "sameGoMap [] ys \<Longrightarrow> ys = []"
  by (simp add: sameGoMap_def)

lemma sameGoMap_single:
  assumes "sameGoMap [a] ys"
  shows "ys = [a]"
proof -
  from assms have d: "distinct ys" and s: "set ys = {a}"
    by (auto simp: sameGoMap_def distinct_map)
  from s obtain b rest where ys: "ys = b # rest"
    by (cases ys) auto
  with s have b: "b = a" by auto
  from d s ys b have "set rest \<subseteq> {a}" and "a \<notin> set rest" by auto
  then have "rest = []" by (cases rest) auto
  with ys b show ?thesis by simp
qed

lemma sameGoMap_first_visited:
  assumes "sameGoMap xs ys" and "xs \<noteq> []"
  shows "\<exists>k v rest. ys = (k, v) # rest \<and> (k, v) \<in> set xs"
proof -
  from assms have "set ys \<noteq> {}" by (auto simp: sameGoMap_def)
  then obtain b rest where ys: "ys = b # rest" by (cases ys) auto
  obtain k v where b: "b = (k, v)" by (cases b)
  from assms(1) ys b have "(k, v) \<in> set xs" by (auto simp: sameGoMap_def)
  with ys b show ?thesis by blast
qed

text \<open>
  C8, as stated, fails: it says that on a mapping with two or more entries every call
  returns the same entry. A map value does not fix the order in which \<^verbatim>\<open>range\<close> visits it:
  here are two visiting orders of one two-entry mapping, and the loop returns a different
  identifier on each.
\<close>

theorem one_mapping_two_identifiers:
  "sameGoMap [(''a'', Some ''x''), (''b'', Some ''y'')] [(''b'', Some ''y''), (''a'', Some ''x'')] \<and>
   extractExternalId [(''a'', Some ''x''), (''b'', Some ''y'')] = Inr ''x'' \<and>
   extractExternalId [(''b'', Some ''y''), (''a'', Some ''x'')] = Inr ''y''"
  by (auto simp: sameGoMap_def deref_def)

text \<open>
  C8, amended. Let \<open>xs\<close> and \<open>ys\<close> be the visiting orders of two calls on one mapping. If
  the mapping is empty both calls return the empty string. If it has exactly one entry both
  calls return the same result, the value of that entry. If it has two or more entries, a
  call returns the value of the entry that its own \<^verbatim>\<open>range\<close> visits first, which is an entry
  of the mapping but need not be the entry another call returns.
\<close>

theorem extractExternalId_amended:
  assumes "sameGoMap xs ys"
  shows "(xs = [] \<longrightarrow> extractExternalId xs = Inr '''' \<and> extractExternalId ys = Inr '''') \<and>
     (length xs = 1 \<longrightarrow>
        extractExternalId ys = extractExternalId xs \<and> extractExternalId xs = deref (snd (hd xs))) \<and>
     (xs \<noteq> [] \<longrightarrow>
        (\<exists>k v rest. ys = (k, v) # rest \<and> (k, v) \<in> set xs \<and> extractExternalId ys = deref v))"
proof -
  have empty: "xs = [] \<longrightarrow> extractExternalId xs = Inr [] \<and> extractExternalId ys = Inr []"
    using assms sameGoMap_empty [of ys] by auto
  have single: "length xs = 1 \<longrightarrow>
      extractExternalId ys = extractExternalId xs \<and> extractExternalId xs = deref (snd (hd xs))"
  proof
    assume "length xs = 1"
    then obtain a where xs: "xs = [a]"
      by (cases xs) auto
    obtain k v where a: "a = (k, v)" by (cases a)
    from assms xs have "ys = [a]" by (simp add: sameGoMap_single)
    with xs a
    show "extractExternalId ys = extractExternalId xs \<and> extractExternalId xs = deref (snd (hd xs))"
      by simp
  qed
  have several: "xs \<noteq> [] \<longrightarrow>
      (\<exists>k v rest. ys = (k, v) # rest \<and> (k, v) \<in> set xs \<and> extractExternalId ys = deref v)"
  proof
    assume "xs \<noteq> []"
    with assms obtain k v rest where "ys = (k, v) # rest" and "(k, v) \<in> set xs"
      using sameGoMap_first_visited by blast
    then show "\<exists>k v rest. ys = (k, v) # rest \<and> (k, v) \<in> set xs \<and> extractExternalId ys = deref v"
      by auto
  qed
  from empty single several show ?thesis
    by (intro conjI)
qed

theorem extractExternalId_amended_witness:
  "sameGoMap [(''sensorKey'', Some ''ext-42'')] [(''sensorKey'', Some ''ext-42'')] \<and>
   extractExternalId [(''sensorKey'', Some ''ext-42'')] = Inr ''ext-42'' \<and>
   sameGoMap [(''a'', Some ''x''), (''b'', Some ''y'')] [(''b'', Some ''y''), (''a'', Some ''x'')] \<and>
   (\<exists>k v rest. [(''b'', Some ''y''), (''a'', Some ''x'')] = (k, v) # rest \<and>
      (k, v) \<in> set [(''a'', Some ''x''), (''b'', Some ''y'')] \<and>
      extractExternalId [(''b'', Some ''y''), (''a'', Some ''x'')] = deref v) \<and>
   sameGoMap ([] :: string option gomap) [] \<and>
   extractExternalId [] = Inr ''''"
proof -
  have one: "sameGoMap [(''sensorKey'', Some ''ext-42'')] [(''sensorKey'', Some ''ext-42'')]"
    by (simp add: sameGoMap_def)
  have two: "sameGoMap [(''a'', Some ''x''), (''b'', Some ''y'')] [(''b'', Some ''y''), (''a'', Some ''x'')]"
    by (auto simp: sameGoMap_def)
  have none: "sameGoMap ([] :: string option gomap) []"
    by (simp add: sameGoMap_def)
  from extractExternalId_amended [OF one] extractExternalId_amended [OF two]
    extractExternalId_amended [OF none] one two none
  show ?thesis
    by (simp add: deref_def)
qed

lemma sep_split_unique:
  "CHR ''_'' \<notin> set a \<Longrightarrow> CHR ''_'' \<notin> set a' \<Longrightarrow> a @ CHR ''_'' # r = a' @ CHR ''_'' # r'
     \<Longrightarrow> a = a' \<and> r = r'"
proof (induction a arbitrary: a')
  case Nil
  then show ?case by (cases a') auto
next
  case (Cons h t)
  then show ?case by (cases a') auto
qed

lemma key_of_fields:
  "epr_EntityId r = Some e \<Longrightarrow> epr_ComponentName r = Some c \<Longrightarrow>
   epr_ExternalIdProperty r = (k, Some x) # rest \<Longrightarrow> epr_PropertyName r = Some p \<Longrightarrow>
   GetEntityPropertyReferenceKey r = Inr (e @ ''_'' @ c @ ''_'' @ x @ ''_'' @ p)"
  by (simp add: GetEntityPropertyReferenceKey_def deref_def)

text \<open>
  C7, as stated, fails: two references whose four fields are set, non-empty and pairwise
  distinct, and which differ in entity id and component name, get the same key, because a
  field may contain the separator.
\<close>

theorem key_collision:
  "GetEntityPropertyReferenceKey
     \<lparr>epr_EntityId = Some ''a_b'', epr_ComponentName = Some ''c'',
      epr_ExternalIdProperty = [(''k'', Some ''x'')], epr_PropertyName = Some ''p''\<rparr> = Inr ''a_b_c_x_p'' \<and>
   GetEntityPropertyReferenceKey
     \<lparr>epr_EntityId = Some ''a'', epr_ComponentName = Some ''b_c'',
      epr_ExternalIdProperty = [(''k'', Some ''x'')], epr_PropertyName = Some ''p''\<rparr> = Inr ''a_b_c_x_p''"
  by (simp add: GetEntityPropertyReferenceKey_def deref_def)

text \<open>
  C7, amended. For a reference with entity id \<open>e\<close>, component name \<open>c\<close>, external id \<open>x\<close>
  (the value visited first in the mapping) and property name \<open>p\<close> the key is the
  concatenation \<open>e_c_x_p\<close>, a function of these four fields alone. Two such references get
  different keys when they differ in exactly one of the four fields, and also when they
  differ in any of the fields and no entity id, component name or external id contains the
  separator.
\<close>

theorem key_amended:
  assumes "epr_EntityId r = Some e" "epr_ComponentName r = Some c"
    "epr_ExternalIdProperty r = (k, Some x) # rest" "epr_PropertyName r = Some p"
    "epr_EntityId r' = Some e'" "epr_ComponentName r' = Some c'"
    "epr_ExternalIdProperty r' = (k', Some x') # rest'" "epr_PropertyName r' = Some p'"
  shows "GetEntityPropertyReferenceKey r = Inr (e @ ''_'' @ c @ ''_'' @ x @ ''_'' @ p) \<and>
     ((e \<noteq> e' \<and> c = c' \<and> x = x' \<and> p = p') \<or> (e = e' \<and> c \<noteq> c' \<and> x = x' \<and> p = p') \<or>
      (e = e' \<and> c = c' \<and> x \<noteq> x' \<and> p = p') \<or> (e = e' \<and> c = c' \<and> x = x' \<and> p \<noteq> p')
        \<longrightarrow> GetEntityPropertyReferenceKey r \<noteq> GetEntityPropertyReferenceKey r') \<and>
     (CHR ''_'' \<notin> set e \<union> set c \<union> set x \<union> set e' \<union> set c' \<union> set x' \<and>
      (e, c, x, p) \<noteq> (e', c', x', p')
        \<longrightarrow> GetEntityPropertyReferenceKey r \<noteq> GetEntityPropertyReferenceKey r')"
proof -
  have k: "GetEntityPropertyReferenceKey r = Inr (e @ ''_'' @ c @ ''_'' @ x @ ''_'' @ p)"
    using assms by (simp add: key_of_fields)
  have k': "GetEntityPropertyReferenceKey r' = Inr (e' @ ''_'' @ c' @ ''_'' @ x' @ ''_'' @ p')"
    using assms by (simp add: key_of_fields)
  have one: "(e \<noteq> e' \<and> c = c' \<and> x = x' \<and> p = p') \<or> (e = e' \<and> c \<noteq> c' \<and> x = x' \<and> p = p') \<or>
      (e = e' \<and> c = c' \<and> x \<noteq> x' \<and> p = p') \<or> (e = e' \<and> c = c' \<and> x = x' \<and> p \<noteq> p')
        \<longrightarrow> GetEntityPropertyReferenceKey r \<noteq> GetEntityPropertyReferenceKey r'"
    unfolding k k' by auto
  have free: "CHR ''_'' \<notin> set e \<union> set c \<union> set x \<union> set e' \<union> set c' \<union> set x' \<and>
      (e, c, x, p) \<noteq> (e', c', x', p')
        \<longrightarrow> GetEntityPropertyReferenceKey r \<noteq> GetEntityPropertyReferenceKey r'"
  proof (intro impI notI, elim conjE)
    assume u: "CHR ''_'' \<notin> set e \<union> set c \<union> set x \<union> set e' \<union> set c' \<union> set x'"
      and ne: "(e, c, x, p) \<noteq> (e', c', x', p')"
      and eq: "GetEntityPropertyReferenceKey r = GetEntityPropertyReferenceKey r'"
    from eq have 1: "e @ CHR ''_'' # (c @ ''_'' @ x @ ''_'' @ p) = e' @ CHR ''_'' # (c' @ ''_'' @ x' @ ''_'' @ p')"
      unfolding k k' by simp
    from u have "e = e' \<and> c @ ''_'' @ x @ ''_'' @ p = c' @ ''_'' @ x' @ ''_'' @ p'"
      by (intro sep_split_unique[OF _ _ 1]) auto
    then have e: "e = e'"
      and 2: "c @ CHR ''_'' # (x @ ''_'' @ p) = c' @ CHR ''_'' # (x' @ ''_'' @ p')"
      by simp_all
    from u have "c = c' \<and> x @ ''_'' @ p = x' @ ''_'' @ p'"
      by (intro sep_split_unique[OF _ _ 2]) auto
    then have c: "c = c'" and 3: "x @ CHR ''_'' # p = x' @ CHR ''_'' # p'"
      by simp_all
    from u have "x = x' \<and> p = p'"
      by (intro sep_split_unique[OF _ _ 3]) auto
    with e c ne show False by simp
  qed
  from k one free show ?thesis by blast
qed

theorem key_amended_witness:
  "GetEntityPropertyReferenceKey
     \<lparr>epr_EntityId = Some ''e1'', epr_ComponentName = Some ''tempSensor'',
      epr_ExternalIdProperty = [(''alarm_key'', Some ''ext-42'')],
      epr_PropertyName = Some ''temperature''\<rparr> = Inr ''e1_tempSensor_ext-42_temperature'' \<and>
   GetEntityPropertyReferenceKey
     \<lparr>epr_EntityId = Some ''e1'', epr_ComponentName = Some ''tempSensor'',
      epr_ExternalIdProperty = [(''alarm_key'', Some ''ext-42'')],
      epr_PropertyName = Some ''temperature''\<rparr> \<noteq>
   GetEntityPropertyReferenceKey
     \<lparr>epr_EntityId = Some ''e1'', epr_ComponentName = Some ''pump'',
      epr_ExternalIdProperty = [(''alarm_key'', Some ''ext-42'')],
      epr_PropertyName = Some ''temperature''\<rparr>"
  using key_amended
    [of "\<lparr>epr_EntityId = Some ''e1'', epr_ComponentName = Some ''tempSensor'',
          epr_ExternalIdProperty = [(''alarm_key'', Some ''ext-42'')],
          epr_PropertyName = Some ''temperature''\<rparr>"
        "''e1''" "''tempSensor''" "''alarm_key''" "''ext-42''" "[]" "''temperature''"
        "\<lparr>epr_EntityId = Some ''e1'', epr_ComponentName = Some ''pump'',
          epr_ExternalIdProperty = [(''alarm_key'', Some ''ext-42'')],
          epr_PropertyName = Some ''temperature''\<rparr>"
        "''e1''" "''pump''" "''alarm_key''" "''ext-42''" "[]" "''temperature''"]
  by (simp add: GetEntityPropertyReferenceKey_def deref_def)

section \<open>Properties of the reference resolver\<close>

subsection \<open>One iteration of the loop\<close>

lemma lookupBody_appends:
  assumes "pvh_EntityPropertyReference pv = Some reference"
    and "extractExternalId (epr_ExternalIdProperty reference) = Inr externalId"
    and "ListEntities client (ls_calls st) (listEntitiesQuery (ls_query st) externalId) = (Some le, lerr)"
    and "le_EntitySummaries le = summary # others"
    and "es_EntityId summary = Some eid"
    and "GetEntity client (ls_calls st @ [ListEntitiesCall (listEntitiesQuery (ls_query st) externalId)])
           ((listEntitiesQuery (ls_query st) externalId)\<lparr>q_EntityId := eid\<rparr>) = (Some e, gerr)"
    and "scanComponents componentTypeId externalId (ge_Components e) = Inr name"
  shows "lookupBody client componentTypeId st pv =
     Inr \<lparr>ls_query = (listEntitiesQuery (ls_query st) externalId)\<lparr>q_EntityId := eid\<rparr>,
          ls_propertyReferences = ls_propertyReferences st @
            [\<lparr>values_of = pvh_Values pv,
              entityPropertyReference =
                \<lparr>epr_EntityId = Some eid, epr_ComponentName = Some name,
                 epr_ExternalIdProperty = epr_ExternalIdProperty reference,
                 epr_PropertyName = epr_PropertyName reference\<rparr>,
              entityName = es_EntityName summary\<rparr>],
          ls_failures = noteFailure gerr (noteFailure lerr (ls_failures st)),
          ls_calls = ls_calls st @
            [ListEntitiesCall (listEntitiesQuery (ls_query st) externalId),
             GetEntityCall ((listEntitiesQuery (ls_query st) externalId)\<lparr>q_EntityId := eid\<rparr>)]\<rparr>"
  using assms by (simp add: lookupBody_def Let_def)

lemma lookupBody_skips:
  assumes "pvh_EntityPropertyReference pv = Some reference"
    and "extractExternalId (epr_ExternalIdProperty reference) = Inr externalId"
    and "ListEntities client (ls_calls st) (listEntitiesQuery (ls_query st) externalId) = (Some le, lerr)"
    and "le_EntitySummaries le = []"
  shows "lookupBody client componentTypeId st pv =
     Inr (st\<lparr>ls_query := listEntitiesQuery (ls_query st) externalId,
             ls_failures := noteFailure lerr (ls_failures st),
             ls_calls := ls_calls st @ [ListEntitiesCall (listEntitiesQuery (ls_query st) externalId)]\<rparr>)"
  using assms by (simp add: lookupBody_def Let_def)

lemma lookupBody_nil_output:
  assumes "pvh_EntityPropertyReference pv = Some reference"
    and "extractExternalId (epr_ExternalIdProperty reference) = Inr externalId"
    and "ListEntities client (ls_calls st) (listEntitiesQuery (ls_query st) externalId) = (None, lerr)"
  shows "lookupBody client componentTypeId st pv = Inl NilPointerDereference"
  using assms by (simp add: lookupBody_def Let_def)


subsection \<open>The scan against its description\<close>

lemma scanProperties_spec:
  "list_all (\<lambda>(pk, p). propertyPopulated p) props \<Longrightarrow>
   scanProperties externalId props = Inr (list_ex (\<lambda>(pk, p). propertyMatches externalId p) props)"
proof (induction props)
  case Nil
  then show ?case by simp
next
  case (Cons a props)
  obtain pk p where a: "a = (pk, p)" by (cases a)
  from Cons show ?case
    by (auto simp: a propertyPopulated_def propertyMatches_def split: option.splits if_splits)
qed

lemma scanComponents_spec:
  "componentsPopulated components \<Longrightarrow>
   \<exists>name. specComponentName componentTypeId externalId components = Some name \<and>
          scanComponents componentTypeId externalId components = Inr name"
proof (induction components)
  case Nil
  then show ?case by (simp add: specComponentName_def)
next
  case (Cons a components)
  obtain k c where a: "a = (k, c)" by (cases a)
  from Cons.prems have pc: "list_all (\<lambda>(pk, p). propertyPopulated p) (cr_Properties c)"
    and rest: "componentsPopulated components"
    and ty: "cr_ComponentTypeId c \<noteq> None" and nm: "cr_ComponentName c \<noteq> None"
    by (simp_all add: a componentsPopulated_def)
  from ty obtain t where t: "cr_ComponentTypeId c = Some t" by auto
  from nm obtain n where n: "cr_ComponentName c = Some n" by auto
  show ?case
  proof (cases "t = componentTypeId")
    case True
    then show ?thesis
      by (simp add: a t n specComponentName_def scanProperties_spec[OF pc] deref_def)
  next
    case False
    with Cons.IH[OF rest] show ?thesis
      by (simp add: a t specComponentName_def)
  qed
qed

lemma scanProperties_flagged_without_string:
  "pr_Definition property = Some d \<Longrightarrow> pd_IsExternalId d = Some True \<Longrightarrow>
   pr_Value property = Some v \<Longrightarrow> dv_StringValue v = None \<Longrightarrow>
   scanProperties externalId ((k, property) # rest) = Inl NilPointerDereference"
  by simp

subsection \<open>Claims\<close>

text \<open>
  C1. The claim says that a failed catalog search costs one warning notice and nothing else:
  no entity-detail call, no resolved reference, and the remaining batches are processed. The
  code records the notice and then reads the summaries of the search output all the same.
  With three batches whose second search fails: when the failed search returns a nil output
  the resolver panics and returns nothing; when it returns an output that still lists an
  entity, the entity-detail call is made and a reference for the second batch is appended.
  Only when the failed search returns an output without summaries does the run end as the
  claim says, with references for batches 1 and 3 and one notice.
\<close>

theorem failed_search_is_not_skipped:
  "GetComponentHistoryWithLookup (searchFailsClient None) exampleQuery = Inl NilPointerDereference \<and>
   map_sum id (\<lambda>r. (map (\<lambda>p. epr_EntityId (entityPropertyReference p)) (res_p r), res_n r, res_err r))
     (GetComponentHistoryWithLookup
        (searchFailsClient
           (Some \<lparr>le_EntitySummaries = [\<lparr>es_EntityId = Some ''e2'', es_EntityName = Some ''Entity e2''\<rparr>]\<rparr>))
        exampleQuery)
     = Inr ([Some ''e1'', Some ''e2'', Some ''e3''],
            [\<lparr>Severity = NoticeSeverityWarning, Text = ''search failed''\<rparr>], None) \<and>
   map_sum id (\<lambda>r. (map (\<lambda>p. epr_EntityId (entityPropertyReference p)) (res_p r), res_n r, res_err r))
     (GetComponentHistoryWithLookup (searchFailsClient (Some \<lparr>le_EntitySummaries = []\<rparr>)) exampleQuery)
     = Inr ([Some ''e1'', Some ''e3''],
            [\<lparr>Severity = NoticeSeverityWarning, Text = ''search failed''\<rparr>], None)"
  by (simp add: GetComponentHistoryWithLookup_def lookupBody_def listEntitiesQuery_def noteFailure_def
      deref_def Let_def
      catalogClient_def catalogSearch_def catalogDetail_def catalog_def batch_def sensor_def
      exampleQuery_def searchFailsClient_def)

text \<open>
  C2. If the history fetch returns an error, the resolver returns an empty sequence of
  references, an empty sequence of notices and that error, whatever output came with the
  error; the history fetch is the only call it made.
\<close>

theorem history_failure_is_fatal:
  assumes "GetPropertyValueHistory client [] query = (result, Some e)"
  shows "GetComponentHistoryWithLookup client query =
    Inr \<lparr>res_p = [], res_n = [], res_err = Some e,
         res_calls = [GetPropertyValueHistoryCall query]\<rparr>"
  using assms by (simp add: GetComponentHistoryWithLookup_def)

theorem history_failure_is_fatal_witness:
  "GetComponentHistoryWithLookup
     (scenarioClient\<lparr>GetPropertyValueHistory := (\<lambda>calls q. (None, Some ''access denied''))\<rparr>)
     exampleQuery =
    Inr \<lparr>res_p = [], res_n = [], res_err = Some ''access denied'',
         res_calls = [GetPropertyValueHistoryCall exampleQuery]\<rparr>"
  by (rule history_failure_is_fatal [where result = None]) simp

text \<open>
  C3. In the end-to-end scenario (one batch with external id \<open>ext-42\<close> and property
  \<open>temperature\<close>; the search for \<open>ext-42\<close> returns the entity \<open>e1\<close> named \<open>Boiler\<close>; the
  detail of \<open>e1\<close> is one component \<open>tempSensor\<close> of the query's component type whose
  external-id property holds \<open>ext-42\<close>) the resolver returns exactly one reference, with
  entity id \<open>e1\<close>, component name \<open>tempSensor\<close>, entity name \<open>Boiler\<close> and property name
  \<open>temperature\<close>, no notice and no error.
\<close>

theorem end_to_end_scenario:
  assumes "GetPropertyValueHistory client [] query =
      (Some \<lparr>ho_PropertyValues =
         [\<lparr>pvh_EntityPropertyReference = Some reference, pvh_Values = vals\<rparr>]\<rparr>, None)"
    and "epr_ExternalIdProperty reference = [(key, Some ''ext-42'')]"
    and "epr_PropertyName reference = Some ''temperature''"
    and "ListEntities client [GetPropertyValueHistoryCall query] (listEntitiesQuery query ''ext-42'') =
      (Some \<lparr>le_EntitySummaries = [\<lparr>es_EntityId = Some ''e1'', es_EntityName = Some ''Boiler''\<rparr>]\<rparr>,
       None)"
    and "GetEntity client
        [GetPropertyValueHistoryCall query, ListEntitiesCall (listEntitiesQuery query ''ext-42'')]
        ((listEntitiesQuery query ''ext-42'')\<lparr>q_EntityId := ''e1''\<rparr>) =
      (Some \<lparr>ge_Components = [(ck, component)]\<rparr>, None)"
    and "cr_ComponentName component = Some ''tempSensor''"
    and "cr_ComponentTypeId component = Some (q_ComponentTypeId query)"
    and "cr_Properties component =
      [(pk, \<lparr>pr_Definition = Some \<lparr>pd_IsExternalId = Some True\<rparr>, pr_Value = Some v\<rparr>)]"
    and "dv_StringValue v = Some ''ext-42''"
  shows "GetComponentHistoryWithLookup client query =
    Inr \<lparr>res_p =
           [\<lparr>values_of = vals,
             entityPropertyReference =
               \<lparr>epr_EntityId = Some ''e1'', epr_ComponentName = Some ''tempSensor'',
                epr_ExternalIdProperty = [(key, Some ''ext-42'')],
                epr_PropertyName = Some ''temperature''\<rparr>,
             entityName = Some ''Boiler''\<rparr>],
         res_n = [], res_err = None,
         res_calls =
           [GetPropertyValueHistoryCall query,
            ListEntitiesCall (listEntitiesQuery query ''ext-42''),
            GetEntityCall ((listEntitiesQuery query ''ext-42'')\<lparr>q_EntityId := ''e1''\<rparr>)]\<rparr>"
proof -
  let ?st = "\<lparr>ls_query = query, ls_propertyReferences = [], ls_failures = [],
              ls_calls = [GetPropertyValueHistoryCall query]\<rparr>"
  let ?pv = "\<lparr>pvh_EntityPropertyReference = Some reference, pvh_Values = vals\<rparr>"
  have scan: "scanComponents (q_ComponentTypeId query) ''ext-42'' (ge_Components \<lparr>ge_Components = [(ck, component)]\<rparr>)
      = Inr ''tempSensor''"
    using assms(6-9) by (simp add: deref_def)
  have body: "lookupBody client (q_ComponentTypeId query) ?st ?pv =
     Inr \<lparr>ls_query = (listEntitiesQuery query ''ext-42'')\<lparr>q_EntityId := ''e1''\<rparr>,
          ls_propertyReferences =
            [\<lparr>values_of = vals,
              entityPropertyReference =
                \<lparr>epr_EntityId = Some ''e1'', epr_ComponentName = Some ''tempSensor'',
                 epr_ExternalIdProperty = [(key, Some ''ext-42'')],
                 epr_PropertyName = Some ''temperature''\<rparr>,
              entityName = Some ''Boiler''\<rparr>],
          ls_failures = [],
          ls_calls = [GetPropertyValueHistoryCall query,
            ListEntitiesCall (listEntitiesQuery query ''ext-42''),
            GetEntityCall ((listEntitiesQuery query ''ext-42'')\<lparr>q_EntityId := ''e1''\<rparr>)]\<rparr>"
    using lookupBody_appends [of ?pv reference "''ext-42''" client ?st
        "\<lparr>le_EntitySummaries = [\<lparr>es_EntityId = Some ''e1'', es_EntityName = Some ''Boiler''\<rparr>]\<rparr>"
        None "\<lparr>es_EntityId = Some ''e1'', es_EntityName = Some ''Boiler''\<rparr>" "[]" "''e1''"
        "\<lparr>ge_Components = [(ck, component)]\<rparr>" None "q_ComponentTypeId query" "''tempSensor''"]
      assms(2-5) scan
    by (simp add: deref_def noteFailure_def)
  show ?thesis
    using assms(1) body by (simp add: GetComponentHistoryWithLookup_def)
qed

theorem end_to_end_scenario_witness:
  "GetComponentHistoryWithLookup scenarioClient exampleQuery =
    Inr \<lparr>res_p =
           [\<lparr>values_of = [\<lparr>pv_Time = Some ''2022-01-01T00:00:00Z'', pv_Value = None\<rparr>],
             entityPropertyReference =
               \<lparr>epr_EntityId = Some ''e1'', epr_ComponentName = Some ''tempSensor'',
                epr_ExternalIdProperty = [(''sensorKey'', Some ''ext-42'')],
                epr_PropertyName = Some ''temperature''\<rparr>,
             entityName = Some ''Boiler''\<rparr>],
         res_n = [], res_err = None,
         res_calls =
           [GetPropertyValueHistoryCall exampleQuery,
            ListEntitiesCall (listEntitiesQuery exampleQuery ''ext-42''),
            GetEntityCall ((listEntitiesQuery exampleQuery ''ext-42'')\<lparr>q_EntityId := ''e1''\<rparr>)]\<rparr>"
  by (rule end_to_end_scenario
        [where reference = "\<lparr>epr_EntityId = None, epr_ComponentName = None,
              epr_ExternalIdProperty = [(''sensorKey'', Some ''ext-42'')],
              epr_PropertyName = Some ''temperature''\<rparr>"
           and ck = "''tempSensor''" and pk = "''sensorKey''"
           and component = "snd (sensor ''tempSensor'' ''com.example.sensor'' ''ext-42'')"
           and v = "\<lparr>dv_StringValue = Some ''ext-42'', dv_BooleanValue = None, dv_IntegerValue = None\<rparr>"])
     (simp_all add: scenarioClient_def batch_def sensor_def exampleQuery_def listEntitiesQuery_def)

text \<open>
  On a detail whose members are all set (each component has a type id and a name, each
  property a definition with its flag, each flagged property a string value) the iteration
  computes the component name the specification describes, appends the reference and adds
  no notice of its own.
\<close>

lemma lookupBody_populated_detail:
  assumes "pvh_EntityPropertyReference pv = Some reference"
    and "extractExternalId (epr_ExternalIdProperty reference) = Inr externalId"
    and "ListEntities client (ls_calls st) (listEntitiesQuery (ls_query st) externalId) = (Some le, lerr)"
    and "le_EntitySummaries le = summary # others"
    and "es_EntityId summary = Some eid"
    and "GetEntity client (ls_calls st @ [ListEntitiesCall (listEntitiesQuery (ls_query st) externalId)])
           ((listEntitiesQuery (ls_query st) externalId)\<lparr>q_EntityId := eid\<rparr>) = (Some e, None)"
    and "componentsPopulated (ge_Components e)"
  shows "\<exists>name st'.
     specComponentName componentTypeId externalId (ge_Components e) = Some name \<and>
     lookupBody client componentTypeId st pv = Inr st' \<and>
     ls_propertyReferences st' = ls_propertyReferences st @
       [\<lparr>values_of = pvh_Values pv,
         entityPropertyReference =
           \<lparr>epr_EntityId = Some eid, epr_ComponentName = Some name,
            epr_ExternalIdProperty = epr_ExternalIdProperty reference,
            epr_PropertyName = epr_PropertyName reference\<rparr>,
         entityName = es_EntityName summary\<rparr>] \<and>
     ls_failures st' = noteFailure lerr (ls_failures st)"
proof -
  from scanComponents_spec [OF assms(7)] obtain name
    where spec: "specComponentName componentTypeId externalId (ge_Components e) = Some name"
      and scan: "scanComponents componentTypeId externalId (ge_Components e) = Inr name"
    by blast
  from lookupBody_appends [OF assms(1-6) scan] spec show ?thesis
    by (simp add: noteFailure_def)
qed

text \<open>
  C4. The claim says that whenever the entity-detail fetch succeeds the component name is
  found by the scan and is the empty string if no flagged property's value matches, the
  reference being appended all the same. The code reads the string value of every flagged
  property it meets without checking the two pointers on the way (line 224). In the runs
  below the history returns one batch with external id \<open>ext-1\<close>, the search returns the
  entity \<open>e1\<close>, and the detail fetch succeeds with one component of the query's component
  type whose flagged property has no value, or has an integer value. No flagged property's
  value matches, so the described name is the empty string; the resolver panics and returns
  nothing. With a string value that differs from \<open>ext-1\<close> the run ends as the claim says:
  one reference with the empty component name, no notice, no error.
\<close>

theorem flagged_property_without_string_panics:
  "specComponentName (q_ComponentTypeId exampleQuery) ''ext-1''
     [(''s1'', flaggedComponent None)] = Some '''' \<and>
   GetComponentHistoryWithLookup (flaggedValueClient None) exampleQuery =
     Inl NilPointerDereference \<and>
   specComponentName (q_ComponentTypeId exampleQuery) ''ext-1''
     [(''s1'', flaggedComponent
         (Some \<lparr>dv_StringValue = None, dv_BooleanValue = None, dv_IntegerValue = Some 7\<rparr>))] =
     Some '''' \<and>
   GetComponentHistoryWithLookup
     (flaggedValueClient
        (Some \<lparr>dv_StringValue = None, dv_BooleanValue = None, dv_IntegerValue = Some 7\<rparr>))
     exampleQuery = Inl NilPointerDereference \<and>
   map_sum id
     (\<lambda>r. (map (\<lambda>p. epr_ComponentName (entityPropertyReference p)) (res_p r), res_n r, res_err r))
     (GetComponentHistoryWithLookup
        (flaggedValueClient
           (Some \<lparr>dv_StringValue = Some ''ext-7'', dv_BooleanValue = None, dv_IntegerValue = None\<rparr>))
        exampleQuery) = Inr ([Some ''''], [], None)"
  by (simp add: GetComponentHistoryWithLookup_def lookupBody_def listEntitiesQuery_def noteFailure_def
      deref_def Let_def catalogClient_def catalogSearch_def catalog_def batch_def
      exampleQuery_def flaggedValueClient_def flaggedComponent_def specComponentName_def
      propertyMatches_def)




text \<open>
  C6. When the search for a batch succeeds and returns no entity summary, the iteration
  appends no reference and no notice, makes no entity-detail call, and the loop goes on with
  the remaining batches.
\<close>

theorem empty_search_is_skipped:
  assumes "pvh_EntityPropertyReference pv = Some reference"
    and "extractExternalId (epr_ExternalIdProperty reference) = Inr externalId"
    and "ListEntities client (ls_calls st) (listEntitiesQuery (ls_query st) externalId) = (Some le, None)"
    and "le_EntitySummaries le = []"
  shows "\<exists>st'. lookupBody client componentTypeId st pv = Inr st' \<and>
     ls_propertyReferences st' = ls_propertyReferences st \<and>
     ls_failures st' = ls_failures st \<and>
     ls_calls st' = ls_calls st @ [ListEntitiesCall (listEntitiesQuery (ls_query st) externalId)] \<and>
     lookupLoop client componentTypeId (pv # rest) st = lookupLoop client componentTypeId rest st'"
  using lookupBody_skips [OF assms, of componentTypeId]
  by (simp add: noteFailure_def)

theorem empty_search_is_skipped_witness:
  "\<exists>st'. lookupBody (catalogClient [] ''com.example.sensor'') ''com.example.sensor'' startState
        (batch ''ext-9'' ''temperature'') = Inr st' \<and>
     ls_propertyReferences st' = [] \<and>
     ls_failures st' = [] \<and>
     ls_calls st' =
       [GetPropertyValueHistoryCall exampleQuery,
        ListEntitiesCall (listEntitiesQuery exampleQuery ''ext-9'')] \<and>
     lookupLoop (catalogClient [] ''com.example.sensor'') ''com.example.sensor''
        [batch ''ext-9'' ''temperature'', batch ''ext-1'' ''temperature''] startState =
     lookupLoop (catalogClient [] ''com.example.sensor'') ''com.example.sensor''
        [batch ''ext-1'' ''temperature''] st'"
proof -
  have 1: "pvh_EntityPropertyReference (batch ''ext-9'' ''temperature'') =
      Some \<lparr>epr_EntityId = None, epr_ComponentName = None,
            epr_ExternalIdProperty = [(''sensorKey'', Some ''ext-9'')],
            epr_PropertyName = Some ''temperature''\<rparr>"
    by (simp add: batch_def)
  have 2: "extractExternalId (epr_ExternalIdProperty
      \<lparr>epr_EntityId = None, epr_ComponentName = None,
       epr_ExternalIdProperty = [(''sensorKey'', Some ''ext-9'')],
       epr_PropertyName = Some ''temperature''\<rparr>) = Inr ''ext-9''"
    by (simp add: deref_def)
  have 3: "ListEntities (catalogClient [] ''com.example.sensor'') (ls_calls startState)
      (listEntitiesQuery (ls_query startState) ''ext-9'') = (Some \<lparr>le_EntitySummaries = []\<rparr>, None)"
    by (simp add: catalogClient_def catalogSearch_def catalogDetail_def catalog_def batch_def sensor_def
      exampleQuery_def startState_def listEntitiesQuery_def deref_def)
  have 4: "le_EntitySummaries \<lparr>le_EntitySummaries = []\<rparr> = []"
    by simp
  show ?thesis
    using empty_search_is_skipped [OF 1 2 3 4, of "''com.example.sensor''" "[batch ''ext-1'' ''temperature'']"]
    by (simp add: startState_def)
qed

text \<open>
  C10. If the history fetch succeeds and returns no batch, the resolver returns no
  reference, no notice and no error, and the history fetch is the only call it made on the
  client: neither the catalog search nor the entity detail is invoked.
\<close>

theorem no_batches_no_lookups:
  assumes "GetPropertyValueHistory client [] query = (Some out, None)"
    and "ho_PropertyValues out = []"
  shows "GetComponentHistoryWithLookup client query =
    Inr \<lparr>res_p = [], res_n = [], res_err = None,
         res_calls = [GetPropertyValueHistoryCall query]\<rparr>"
  using assms by (simp add: GetComponentHistoryWithLookup_def)

theorem no_batches_no_lookups_witness:
  "GetComponentHistoryWithLookup (catalogClient [] ''com.example.sensor'') exampleQuery =
    Inr \<lparr>res_p = [], res_n = [], res_err = None,
         res_calls = [GetPropertyValueHistoryCall exampleQuery]\<rparr>"
  by (rule no_batches_no_lookups [where out = "\<lparr>ho_PropertyValues = []\<rparr>"])
     (simp_all add: catalogClient_def)

section \<open>Properties of the access-policy document\<close>

lemma LoadPolicy_compaction_error:
  "jsonCompact lib policyTemplate = Inl err \<Longrightarrow> LoadPolicy lib workspace = Inr ('''', Some err)"
  by (simp add: LoadPolicy_def)



end
